theory Spec2Isabelle
  imports Complex_Main "HOL-Library.Sublist"
begin

section \<open>Data model of \<open>src/core/retrieval.py\<close>\<close>

text \<open>
  Python floats are modelled as \<^typ>\<open>real\<close>: the scores are compared and combined in a
  weighted sum, and no statement below depends on rounding. Wall-clock readings
  (\<open>latency_ms\<close>, \<open>timestamp\<close>, \<open>total_latency_ms\<close>) are not part of the model.
  A payload is a dictionary with string keys; its values are kept as strings and it is
  stored as an association list read with \<^const>\<open>map_of\<close>.
\<close>

datatype RetrievalStage = BM25_FILTER | BI_ENCODER | COLBERT | CROSS_ENCODER

record RetrievalMetrics =
  stage :: RetrievalStage
  candidates_in :: nat
  candidates_out :: nat

record CandidateIncident =
  incident_id :: string
  title :: string
  payload :: "(string \<times> string) list"
  bm25_score :: real
  bi_encoder_score :: real
  colbert_score :: real
  cross_encoder_score :: real
  final_score :: real
  match_reasons :: "string list"

text \<open>One hit of the vector database: \<open>str(r.id)\<close>, \<open>r.score\<close>, \<open>r.payload\<close>.\<close>

record ScoredPoint =
  point_id :: string
  point_score :: real
  point_payload :: "(string \<times> string) list"

text \<open>
  The exceptions a run can meet. \<open>AttributeError\<close> is what Python raises for the call
  \<open>self._build_filters(filters)\<close>: neither search stage defines that method.
  \<open>CollaboratorError\<close> stands for any exception raised by the vector database or the
  embedding service.
\<close>

datatype error = AttributeError | CollaboratorError string | ValidationError

text \<open>
  The external collaborators, as functions of the arguments the stages pass them:
  the database's text search and vector search (collection, query, limit), the embedding
  service, and, for the late-interaction stage, the cosine similarity that the stage
  computes with numpy from the embeddings of the query and of a candidate's detail text.
  The similarity is an error or a number. The source's quotient is NaN, with no
  exception, when an embedding has norm zero; a NaN score has no counterpart among the
  reals, so such a run is outside this model. The statements below about all runs say
  nothing about the order in which a stage's sort leaves its candidates; the concrete
  runs have numbers for all their scores.
\<close>

record collaborators =
  sparse_search :: "string \<Rightarrow> string \<Rightarrow> int \<Rightarrow> error + ScoredPoint list"
  dense_search :: "string \<Rightarrow> real list \<Rightarrow> int \<Rightarrow> error + ScoredPoint list"
  embed_text :: "string \<Rightarrow> error + real list"
  detail_similarity :: "string \<Rightarrow> string \<Rightarrow> error + real"

text \<open>Python's \<open>xs[:n]\<close> for an integer \<open>n\<close>: a negative \<open>n\<close> drops from the end.\<close>

definition py_prefix :: "'a list \<Rightarrow> int \<Rightarrow> 'a list" where
  "py_prefix xs n = (if 0 \<le> n then take (nat n) xs else take (length xs - nat (- n)) xs)"

text \<open>
  \<open>xs.sort(key=k, reverse=True)\<close>: a stable sort, descending by key, elements with equal
  keys staying in their original order.
\<close>

definition sort_desc :: "('a \<Rightarrow> real) \<Rightarrow> 'a list \<Rightarrow> 'a list" where
  "sort_desc k xs = sort_key (\<lambda>x. - k x) xs"

text \<open>Truthiness of an optional dictionary: \<open>None\<close> and \<open>{}\<close> are false.\<close>

definition truthy_filters :: "(string \<times> string) list option \<Rightarrow> bool" where
  "truthy_filters f = (case f of None \<Rightarrow> False | Some d \<Rightarrow> d \<noteq> [])"

definition new_candidate :: "string \<Rightarrow> string \<Rightarrow> (string \<times> string) list \<Rightarrow> CandidateIncident" where
  "new_candidate i t p =
     \<lparr>incident_id = i, title = t, payload = p, bm25_score = 0, bi_encoder_score = 0,
      colbert_score = 0, cross_encoder_score = 0, final_score = 0, match_reasons = []\<rparr>"

definition payload_get :: "(string \<times> string) list \<Rightarrow> string \<Rightarrow> string \<Rightarrow> string" where
  "payload_get p k d = (case map_of p k of None \<Rightarrow> d | Some v \<Rightarrow> v)"

section \<open>Stage 1: \<open>BM25FilterStage.search\<close>\<close>

definition bm25_candidate :: "ScoredPoint \<Rightarrow> CandidateIncident" where
  "bm25_candidate r =
     (new_candidate (point_id r) (payload_get (point_payload r) ''title'' '''') (point_payload r))
       \<lparr>bm25_score := point_score r\<rparr>"

definition bm25_search ::
  "collaborators \<Rightarrow> string \<Rightarrow> (string \<times> string) list option \<Rightarrow> int
     \<Rightarrow> error + (CandidateIncident list \<times> RetrievalMetrics)" where
  "bm25_search K query filters limit =
     (if truthy_filters filters then Inl AttributeError
      else case sparse_search K ''incidents_bm25'' query limit of
             Inl e \<Rightarrow> Inl e
           | Inr results \<Rightarrow>
               (let candidates = map bm25_candidate results
                in Inr (candidates,
                        \<lparr>stage = BM25_FILTER, candidates_in = length candidates,
                         candidates_out = length candidates\<rparr>)))"

section \<open>Stage 2: \<open>BiEncoderStage.search\<close>\<close>

definition bi_encoder_candidate :: "ScoredPoint \<Rightarrow> CandidateIncident" where
  "bi_encoder_candidate r =
     (new_candidate (point_id r) (payload_get (point_payload r) ''title'' '''') (point_payload r))
       \<lparr>bi_encoder_score := point_score r\<rparr>"

definition bi_encoder_search ::
  "collaborators \<Rightarrow> string \<Rightarrow> (string \<times> string) list option \<Rightarrow> int
     \<Rightarrow> error + (CandidateIncident list \<times> RetrievalMetrics)" where
  "bi_encoder_search K query filters limit =
     (case embed_text K query of
        Inl e \<Rightarrow> Inl e
      | Inr query_embedding \<Rightarrow>
          (if truthy_filters filters then Inl AttributeError
           else case dense_search K ''incidents_summary'' query_embedding limit of
                  Inl e \<Rightarrow> Inl e
                | Inr results \<Rightarrow>
                    (let candidates = map bi_encoder_candidate results
                     in Inr (candidates,
                             \<lparr>stage = BI_ENCODER, candidates_in = length candidates,
                              candidates_out = length candidates\<rparr>))))"

section \<open>Stage 3: \<open>ColBERTStage.score\<close>\<close>

definition detail_text :: "CandidateIncident \<Rightarrow> string" where
  "detail_text c =
     (let d = payload_get (payload c) ''description'' ''''
      in case map_of (payload c) ''error_message'' of
           None \<Rightarrow> d
         | Some m \<Rightarrow> (if m \<noteq> [] then d @ '' '' @ m else d))"

text \<open>The scoring loop over \<open>candidates[:50]\<close>; the first failing call ends the run.\<close>

fun score_loop ::
  "collaborators \<Rightarrow> string \<Rightarrow> CandidateIncident list \<Rightarrow> error + CandidateIncident list" where
  "score_loop K query [] = Inr []"
| "score_loop K query (c # cs) =
     (case detail_similarity K query (detail_text c) of
        Inl e \<Rightarrow> Inl e
      | Inr similarity \<Rightarrow>
          (case score_loop K query cs of
             Inl e \<Rightarrow> Inl e
           | Inr scored \<Rightarrow> Inr (c\<lparr>colbert_score := similarity\<rparr> # scored)))"

definition colbert_score_stage ::
  "bool \<Rightarrow> collaborators \<Rightarrow> string \<Rightarrow> CandidateIncident list \<Rightarrow> int
     \<Rightarrow> error + (CandidateIncident list \<times> RetrievalMetrics)" where
  "colbert_score_stage enabled K query candidates limit =
     (if \<not> enabled then
        Inr (map (\<lambda>c. c\<lparr>colbert_score := bi_encoder_score c\<rparr>) candidates,
             \<lparr>stage = COLBERT, candidates_in = length candidates,
              candidates_out = length candidates\<rparr>)
      else case score_loop K query (py_prefix candidates 50) of
             Inl e \<Rightarrow> Inl e
           | Inr scored0 \<Rightarrow>
               (let scored = sort_desc colbert_score scored0
                in Inr (py_prefix scored limit,
                        \<lparr>stage = COLBERT, candidates_in = length candidates,
                         candidates_out = length (py_prefix scored limit)\<rparr>)))"

section \<open>Stage 4: \<open>CrossEncoderStage.rerank\<close>\<close>

text \<open>
  The stage holds \<open>enabled\<close>, \<open>model\<close> (only its truthiness is read) and \<open>top_k\<close>.
  The enabled branch scores the candidate at position \<open>i\<close> of \<open>candidates[:top_k]\<close>
  with the placeholder combination times the position boost \<open>1 - 0.01 i\<close>. The
  source writes the score into the candidate object; the model returns the updated
  records, which is the same as long as the list holds each object once, as every list
  built by \<open>search\<close> does. The query-document pairs the source prepares are never
  read and are left out.
\<close>

record CrossEncoderStage =
  ce_enabled :: bool
  ce_model :: bool
  ce_top_k :: int

definition placeholder_score :: "nat \<Rightarrow> CandidateIncident \<Rightarrow> real" where
  "placeholder_score i c =
     (0.10 * bm25_score c + 0.25 * bi_encoder_score c + 0.40 * colbert_score c
        + 0.25 * bi_encoder_score c) * (1.0 - (real i * 0.01))"

definition rerank ::
  "CrossEncoderStage \<Rightarrow> string \<Rightarrow> CandidateIncident list \<Rightarrow> int
     \<Rightarrow> CandidateIncident list \<times> RetrievalMetrics" where
  "rerank S query candidates limit =
     (if \<not> ce_enabled S \<or> \<not> ce_model S then
        (let final = py_prefix candidates limit
         in (final, \<lparr>stage = CROSS_ENCODER, candidates_in = length candidates,
                     candidates_out = length final\<rparr>))
      else
        (let top = py_prefix candidates (ce_top_k S);
             scored = map (\<lambda>(i, c). c\<lparr>cross_encoder_score := placeholder_score i c\<rparr>)
                          (enumerate 0 top);
             reranked = sort_desc cross_encoder_score scored
         in (py_prefix reranked limit,
             \<lparr>stage = CROSS_ENCODER, candidates_in = length candidates,
              candidates_out = length (py_prefix reranked limit)\<rparr>)))"

section \<open>The orchestrator: \<open>HybridRetrievalPipeline\<close>\<close>

record PipelineResult =
  matches :: "CandidateIncident list"
  metrics :: "RetrievalMetrics list"

text \<open>\<open>_merge_candidates\<close>: the loop over \<open>list1 + list2\<close> with its \<open>seen\<close> set.\<close>

fun merge_loop ::
  "string set \<Rightarrow> CandidateIncident list \<Rightarrow> CandidateIncident list \<Rightarrow> CandidateIncident list" where
  "merge_loop seen merged [] = merged"
| "merge_loop seen merged (c # cs) =
     (if incident_id c \<notin> seen
      then merge_loop (insert (incident_id c) seen) (merged @ [c]) cs
      else merge_loop seen merged cs)"

definition merge_candidates ::
  "CandidateIncident list \<Rightarrow> CandidateIncident list \<Rightarrow> CandidateIncident list" where
  "merge_candidates list1 list2 = merge_loop {} [] (list1 @ list2)"

definition calculate_final_score :: "CandidateIncident \<Rightarrow> real" where
  "calculate_final_score c =
     0.10 * bm25_score c + 0.25 * bi_encoder_score c + 0.40 * colbert_score c
       + 0.25 * cross_encoder_score c"

definition explain_match :: "CandidateIncident \<Rightarrow> string \<Rightarrow> string list" where
  "explain_match c query =
     (if bm25_score c > 0.8 then [''Strong keyword match''] else [])
   @ (if bi_encoder_score c > 0.9 then [''High semantic similarity''] else [])
   @ (if colbert_score c > 0.9 then [''Token-level precision match''] else [])
   @ (if cross_encoder_score c > 0.9 then [''Cross-encoder verified''] else [])"

definition finalize :: "string \<Rightarrow> CandidateIncident \<Rightarrow> CandidateIncident" where
  "finalize query c =
     (let c1 = c\<lparr>final_score := calculate_final_score c\<rparr>
      in c1\<lparr>match_reasons := explain_match c1 query\<rparr>)"

record HybridRetrievalPipeline =
  clients :: collaborators
  colbert_enabled :: bool
  cross_encoder :: CrossEncoderStage

definition search ::
  "HybridRetrievalPipeline \<Rightarrow> string \<Rightarrow> (string \<times> string) list option \<Rightarrow> int
     \<Rightarrow> error + PipelineResult" where
  "search P query filters limit =
     (case bm25_search (clients P) query filters 100 of
        Inl e \<Rightarrow> Inl e
      | Inr (bm25_candidates, bm25_metrics) \<Rightarrow>
     (case bi_encoder_search (clients P) query filters 50 of
        Inl e \<Rightarrow> Inl e
      | Inr (bi_encoder_candidates, bi_metrics) \<Rightarrow>
     (let merged = merge_candidates bm25_candidates bi_encoder_candidates
      in case colbert_score_stage (colbert_enabled P) (clients P) query merged 20 of
           Inl e \<Rightarrow> Inl e
         | Inr (colbert_candidates, colbert_metrics) \<Rightarrow>
     (let (final_candidates, cross_metrics) =
            rerank (cross_encoder P) query colbert_candidates limit
      in Inr \<lparr>matches = map (finalize query) final_candidates,
              metrics = [bm25_metrics, bi_metrics, colbert_metrics, cross_metrics]\<rparr>))))"

definition exact_matches :: "PipelineResult \<Rightarrow> CandidateIncident list" where
  "exact_matches r = filter (\<lambda>m. final_score m \<ge> 0.92) (matches r)"

definition partial_matches :: "PipelineResult \<Rightarrow> CandidateIncident list" where
  "partial_matches r = filter (\<lambda>m. 0.70 \<le> final_score m \<and> final_score m < 0.92) (matches r)"

section \<open>Configuration and the confidence classifier\<close>

text \<open>
  \<open>PatternMatchingSettings\<close> of \<open>src/core/config.py\<close>: the three thresholds, each passed
  through the field validator \<open>validate_thresholds\<close>; a value it refuses makes the
  construction fail.
\<close>

record PatternMatchingSettings =
  exact_match_threshold :: real
  partial_match_threshold :: real
  min_match_threshold :: real

definition validate_thresholds :: "real \<Rightarrow> error + real" where
  "validate_thresholds v = (if \<not> (0 \<le> v \<and> v \<le> 1) then Inl ValidationError else Inr v)"

definition new_PatternMatchingSettings :: "real \<Rightarrow> real \<Rightarrow> real \<Rightarrow> error + PatternMatchingSettings" where
  "new_PatternMatchingSettings e p m =
     (case (validate_thresholds e, validate_thresholds p, validate_thresholds m) of
        (Inr e', Inr p', Inr m') \<Rightarrow>
           Inr \<lparr>exact_match_threshold = e', partial_match_threshold = p',
                min_match_threshold = m'\<rparr>
      | _ \<Rightarrow> Inl ValidationError)"

definition default_settings :: PatternMatchingSettings where
  "default_settings =
     \<lparr>exact_match_threshold = 0.92, partial_match_threshold = 0.70, min_match_threshold = 0.50\<rparr>"

datatype MatchConfidence = EXACT | PARTIAL | NONE

text \<open>\<open>PatternMatchingEngine._calculate_confidence\<close> (\<open>src/core/pattern_matching.py\<close>).\<close>

definition calculate_confidence :: "PatternMatchingSettings \<Rightarrow> real \<Rightarrow> MatchConfidence" where
  "calculate_confidence st similarity_score =
     (if similarity_score \<ge> exact_match_threshold st then EXACT
      else if similarity_score \<ge> partial_match_threshold st then PARTIAL
      else NONE)"

text \<open>\<open>EnhancedPatternMatchingEngine._calculate_confidence\<close> (\<open>src/core/pattern_matching_v2.py\<close>).\<close>

definition calculate_confidence_v2 :: "PatternMatchingSettings \<Rightarrow> real \<Rightarrow> MatchConfidence" where
  "calculate_confidence_v2 st score =
     (if score \<ge> exact_match_threshold st then EXACT
      else if score \<ge> partial_match_threshold st then PARTIAL
      else NONE)"

section \<open>Concrete runs used below\<close>

text \<open>
  The run of the specification's scenario: the keyword index answers with INC-1 (score
  0.6), the summary index with INC-1 (0.95) and INC-2 (0.80), the detail similarity is
  0.93 for INC-1's text and 0.75 for INC-2's, late interaction is enabled and the
  cross-encoder stage is constructed as \<open>_init_pipeline\<close> does (no model, disabled).
\<close>

definition scenario_clients :: collaborators where
  "scenario_clients =
     \<lparr>sparse_search = (\<lambda>collection text n.
        Inr [\<lparr>point_id = ''INC-1'', point_score = 0.6,
              point_payload = [(''title'', ''DB timeout''),
                               (''description'', ''connection pool timeout'')]\<rparr>]),
      dense_search = (\<lambda>collection vec n.
        Inr [\<lparr>point_id = ''INC-1'', point_score = 0.95,
              point_payload = [(''title'', ''DB timeout''),
                               (''description'', ''connection pool timeout'')]\<rparr>,
             \<lparr>point_id = ''INC-2'', point_score = 0.80,
              point_payload = [(''title'', ''Slow queries''),
                               (''description'', ''slow query log'')]\<rparr>]),
      embed_text = (\<lambda>text. Inr [1, 0]),
      detail_similarity = (\<lambda>query detail.
        if detail = ''connection pool timeout'' then Inr 0.93 else Inr 0.75)\<rparr>"

definition scenario_pipeline :: HybridRetrievalPipeline where
  "scenario_pipeline =
     \<lparr>clients = scenario_clients, colbert_enabled = True,
      cross_encoder = \<lparr>ce_enabled = False, ce_model = False, ce_top_k = 20\<rparr>\<rparr>"

definition scenario_result :: "error + PipelineResult" where
  "scenario_result = search scenario_pipeline ''database connection timeout'' None 5"

text \<open>A run in which only the summary index has hits, with two incidents A and B.\<close>

definition ab_clients :: collaborators where
  "ab_clients =
     \<lparr>sparse_search = (\<lambda>collection text n. Inr []),
      dense_search = (\<lambda>collection vec n.
        Inr [\<lparr>point_id = ''B'', point_score = 0.9,
              point_payload = [(''title'', ''B''), (''description'', ''text of B'')]\<rparr>,
             \<lparr>point_id = ''A'', point_score = 0.1,
              point_payload = [(''title'', ''A''), (''description'', ''text of A'')]\<rparr>]),
      embed_text = (\<lambda>text. Inr [1, 0]),
      detail_similarity = (\<lambda>query detail.
        if detail = ''text of A'' then Inr 0.9 else Inr 0.8)\<rparr>"

definition ab_pipeline :: HybridRetrievalPipeline where
  "ab_pipeline =
     \<lparr>clients = ab_clients, colbert_enabled = True,
      cross_encoder = \<lparr>ce_enabled = False, ce_model = False, ce_top_k = 20\<rparr>\<rparr>"

definition ab_result :: "error + PipelineResult" where
  "ab_result = search ab_pipeline ''disk full'' None 5"

text \<open>A run in which the keyword index cannot be reached.\<close>

definition unreachable_clients :: collaborators where
  "unreachable_clients =
     scenario_clients\<lparr>sparse_search :=
        (\<lambda>collection text n. Inl (CollaboratorError ''connection refused''))\<rparr>"

definition unreachable_pipeline :: HybridRetrievalPipeline where
  "unreachable_pipeline = scenario_pipeline\<lparr>clients := unreachable_clients\<rparr>"

text \<open>Candidates as the two search stages build them, and a disabled re-ranking stage.\<close>

definition kw1 :: CandidateIncident where
  "kw1 = (new_candidate ''INC-1'' ''DB timeout'' [(''title'', ''DB timeout'')])
           \<lparr>bm25_score := 0.6\<rparr>"

definition sem1 :: CandidateIncident where
  "sem1 = (new_candidate ''INC-1'' ''DB timeout (summary)'' [(''title'', ''DB timeout (summary)'')])
            \<lparr>bi_encoder_score := 0.95\<rparr>"

definition sem2 :: CandidateIncident where
  "sem2 = (new_candidate ''INC-2'' ''Slow queries'' [(''title'', ''Slow queries'')])
            \<lparr>bi_encoder_score := 0.80\<rparr>"

definition scored1 :: CandidateIncident where
  "scored1 = kw1\<lparr>colbert_score := 0.93\<rparr>"

definition scored2 :: CandidateIncident where
  "scored2 = sem2\<lparr>colbert_score := 0.75\<rparr>"

definition strict_settings :: PatternMatchingSettings where
  "strict_settings =
     \<lparr>exact_match_threshold = 0.95, partial_match_threshold = 0.70, min_match_threshold = 0.50\<rparr>"

definition disabled_stage :: CrossEncoderStage where
  "disabled_stage = \<lparr>ce_enabled = False, ce_model = False, ce_top_k = 20\<rparr>"

section \<open>Auxiliary facts\<close>

lemmas stage_defs =
  search_def bm25_search_def bi_encoder_search_def colbert_score_stage_def rerank_def
  merge_candidates_def finalize_def calculate_final_score_def explain_match_def
  bm25_candidate_def bi_encoder_candidate_def new_candidate_def payload_get_def
  detail_text_def py_prefix_def sort_desc_def truthy_filters_def

lemmas scenario_defs = scenario_result_def scenario_pipeline_def scenario_clients_def
lemmas ab_defs = ab_result_def ab_pipeline_def ab_clients_def

subsection \<open>The merge loop\<close>

lemma merge_loop_acc: "merge_loop seen acc cs = acc @ merge_loop seen [] cs"
proof (induction cs arbitrary: seen acc)
  case Nil
  show ?case by simp
next
  case (Cons c cs)
  show ?case
  proof (cases "incident_id c \<in> seen")
    case True
    then show ?thesis using Cons.IH [of seen acc] by simp
  next
    case False
    then show ?thesis
      using Cons.IH [of "insert (incident_id c) seen" "acc @ [c]"]
            Cons.IH [of "insert (incident_id c) seen" "[c]"]
      by simp
  qed
qed

lemma merge_loop_Cons:
  "merge_loop seen [] (c # cs) =
     (if incident_id c \<in> seen then merge_loop seen [] cs
      else c # merge_loop (insert (incident_id c) seen) [] cs)"
  using merge_loop_acc [of "insert (incident_id c) seen" "[c]" cs] by simp

lemma ids_merge_loop:
  "incident_id ` set (merge_loop seen [] cs) = incident_id ` set cs - seen"
  by (induction cs arbitrary: seen) (auto simp: merge_loop_Cons simp del: merge_loop.simps(2))

lemma distinct_merge_loop: "distinct (map incident_id (merge_loop seen [] cs))"
proof (induction cs arbitrary: seen)
  case Nil
  show ?case by simp
next
  case (Cons c cs)
  have "incident_id c \<notin> incident_id ` set (merge_loop (insert (incident_id c) seen) [] cs)"
    by (simp add: ids_merge_loop)
  then show ?case using Cons.IH by (simp add: merge_loop_Cons del: merge_loop.simps(2))
qed

lemma merge_loop_append:
  "merge_loop seen [] (xs @ ys) =
     merge_loop seen [] xs @ merge_loop (seen \<union> incident_id ` set xs) [] ys"
  by (induction xs arbitrary: seen) (simp_all add: merge_loop_Cons insert_absorb del: merge_loop.simps(2))

lemma merge_loop_seen_all:
  "incident_id ` set cs \<subseteq> seen \<Longrightarrow> merge_loop seen [] cs = []"
  by (induction cs arbitrary: seen) (simp_all add: merge_loop_Cons del: merge_loop.simps(2))

lemma merge_loop_fixed:
  "distinct (map incident_id cs) \<Longrightarrow> incident_id ` set cs \<inter> seen = {} \<Longrightarrow>
     merge_loop seen [] cs = cs"
  by (induction cs arbitrary: seen) (auto simp add: merge_loop_Cons simp del: merge_loop.simps(2))

lemma subseq_merge_loop: "subseq (merge_loop seen [] cs) cs"
  by (induction cs arbitrary: seen)
     (auto simp add: merge_loop_Cons simp del: merge_loop.simps(2) intro: list_emb_Cons)

lemma merge_loop_first:
  "c \<in> set (merge_loop seen [] cs) \<Longrightarrow> find (\<lambda>x. incident_id x = incident_id c) cs = Some c"
proof (induction cs arbitrary: seen)
  case Nil
  then show ?case by simp
next
  case (Cons d ds)
  show ?case
  proof (cases "incident_id d = incident_id c")
    case True
    have "c \<notin> set (merge_loop (insert (incident_id d) seen) [] ds)"
      using ids_merge_loop [of "insert (incident_id d) seen" ds] True by auto
    moreover have "c \<notin> set (merge_loop seen [] ds)" if "incident_id d \<in> seen"
      using ids_merge_loop [of seen ds] True that by auto
    ultimately have "c = d" using Cons.prems
      by (auto simp add: merge_loop_Cons simp del: merge_loop.simps(2) split: if_splits)
    then show ?thesis by simp
  next
    case False
    then have "c \<in> set (merge_loop seen [] ds) \<or> c \<in> set (merge_loop (insert (incident_id d) seen) [] ds)"
      using Cons.prems by (auto simp add: merge_loop_Cons simp del: merge_loop.simps(2) split: if_splits)
    then show ?thesis using Cons.IH False by auto
  qed
qed

lemma merge_loop_filter:
  "merge_loop (seen \<union> t) [] cs = filter (\<lambda>c. incident_id c \<notin> t) (merge_loop seen [] cs)"
proof (induction cs arbitrary: seen)
  case Nil
  show ?case by simp
next
  case (Cons c cs)
  let ?i = "incident_id c"
  show ?case
  proof (cases "?i \<in> seen")
    case True
    then show ?thesis using Cons.IH [of seen]
      by (simp add: merge_loop_Cons del: merge_loop.simps(2))
  next
    case False
    show ?thesis
    proof (cases "?i \<in> t")
      case True
      then have "insert ?i seen \<union> t = seen \<union> t" by auto
      then have "filter (\<lambda>c. incident_id c \<notin> t) (merge_loop (insert ?i seen) [] cs)
                 = merge_loop (seen \<union> t) [] cs"
        using Cons.IH [of "insert ?i seen"] by simp
      then show ?thesis using True False
        by (simp add: merge_loop_Cons del: merge_loop.simps(2))
    next
      case nt: False
      then show ?thesis using False Cons.IH [of "insert ?i seen"]
        by (simp add: merge_loop_Cons del: merge_loop.simps(2))
    qed
  qed
qed


lemma merge_candidates_split:
  "merge_candidates a b =
     merge_candidates a [] @ filter (\<lambda>c. incident_id c \<notin> incident_id ` set a) (merge_candidates [] b)"
  using merge_loop_append [of "{}" a b] merge_loop_filter [of "{}" "incident_id ` set a" b]
  by (simp add: merge_candidates_def)

lemma merge_candidates_absorb:
  assumes "incident_id ` set c \<subseteq> incident_id ` set (a @ b)"
  shows "merge_candidates (merge_candidates a b) c = merge_candidates a b"
proof -
  let ?m = "merge_loop {} [] (a @ b)"
  have ids: "incident_id ` set ?m = incident_id ` set (a @ b)"
    using ids_merge_loop [of "{}" "a @ b"] by simp
  have "merge_loop {} [] ?m = ?m"
    by (rule merge_loop_fixed) (simp_all add: distinct_merge_loop)
  moreover have "merge_loop (incident_id ` set ?m) [] c = []"
    by (rule merge_loop_seen_all) (use assms ids in simp)
  ultimately show ?thesis
    using merge_loop_append [of "{}" ?m c] by (simp add: merge_candidates_def)
qed

subsection \<open>Slicing and the final step\<close>

lemma length_py_prefix: "0 \<le> n \<Longrightarrow> length (py_prefix xs n) \<le> nat n"
  by (simp add: py_prefix_def)

lemma prefix_py_prefix: "prefix (py_prefix xs n) xs"
  by (simp add: py_prefix_def take_is_prefix)

lemma finalize_scores:
  "cross_encoder_score (finalize q c) = cross_encoder_score c"
  "colbert_score (finalize q c) = colbert_score c"
  "bi_encoder_score (finalize q c) = bi_encoder_score c"
  "bm25_score (finalize q c) = bm25_score c"
  "incident_id (finalize q c) = incident_id c"
  "final_score (finalize q c) = calculate_final_score c"
  by (simp_all add: finalize_def Let_def)

lemma calculate_final_score_finalize:
  "calculate_final_score (finalize q c) = calculate_final_score c"
  by (simp add: calculate_final_score_def finalize_scores)

lemma search_Inr_cases:
  assumes "search P q f limit = Inr r"
  obtains b m1 s m2 col m3 where
    "bm25_search (clients P) q f 100 = Inr (b, m1)"
    "bi_encoder_search (clients P) q f 50 = Inr (s, m2)"
    "colbert_score_stage (colbert_enabled P) (clients P) q (merge_candidates b s) 20 = Inr (col, m3)"
    "matches r = map (finalize q) (fst (rerank (cross_encoder P) q col limit))"
    "metrics r = [m1, m2, m3, snd (rerank (cross_encoder P) q col limit)]"
  using assms
  by (auto simp: search_def Let_def split: sum.splits prod.splits)

lemma rerank_disabled_fst:
  assumes "\<not> ce_enabled S \<or> \<not> ce_model S"
  shows "fst (rerank S q cs limit) = py_prefix cs limit"
  using assms by (auto simp: rerank_def Let_def)

lemma length_rerank: "0 \<le> limit \<Longrightarrow> length (fst (rerank S q cs limit)) \<le> nat limit"
  by (simp add: rerank_def Let_def length_py_prefix)

section \<open>The claims\<close>

subsection \<open>C1: the scenario run\<close>

text \<open>
  Claim C1, as the code runs it. For the query "database connection timeout", with the
  keyword stage returning INC-1 (0.6), the semantic stage returning INC-1 (0.95) and
  INC-2 (0.80), late interaction scoring INC-1 at 0.93 and INC-2 at 0.75 and re-ranking
  disabled, \<open>search\<close> succeeds and returns [INC-1, INC-2] in that order. The INC-1 it
  returns is the keyword stage's candidate, whose semantic score is 0, and no candidate
  gets a re-rank score, so \<open>final_score(INC-1) = 0.10 * 0.6 + 0.40 * 0.93 = 0.432\<close> and
  \<open>final_score(INC-2) = 0.25 * 0.80 + 0.40 * 0.75 = 0.5\<close>; both are classified NONE
  under the default thresholds.
\<close>

theorem scenario_scores:
  "\<not> isl scenario_result
   \<and> map incident_id (matches (projr scenario_result)) = [''INC-1'', ''INC-2'']
   \<and> map bm25_score (matches (projr scenario_result)) = [0.6, 0]
   \<and> map bi_encoder_score (matches (projr scenario_result)) = [0, 0.80]
   \<and> map colbert_score (matches (projr scenario_result)) = [0.93, 0.75]
   \<and> map cross_encoder_score (matches (projr scenario_result)) = [0, 0]
   \<and> map final_score (matches (projr scenario_result)) = [0.432, 0.5]
   \<and> map (\<lambda>c. calculate_confidence_v2 default_settings (final_score c))
          (matches (projr scenario_result)) = [NONE, NONE]"
  by (simp add: scenario_defs stage_defs calculate_confidence_v2_def default_settings_def)

text \<open>C1, used: the scenario run returns two matches.\<close>

theorem scenario_scores_witness:
  "length (matches (projr scenario_result)) = 2"
proof -
  have "map incident_id (matches (projr scenario_result)) = [''INC-1'', ''INC-2'']"
    using scenario_scores by blast
  then have "length (map incident_id (matches (projr scenario_result)))
               = length [''INC-1'', ''INC-2'']"
    by (rule arg_cong)
  then show ?thesis by simp
qed

text \<open>
  C1 as stated fails on this run: the first match's final score is not within 0.0001 of
  0.8995, it is not classified EXACT, and the second match's final score is not within
  0.0001 of 0.6375.
\<close>

theorem scenario_counterexample:
  "\<not> (\<bar>final_score (matches (projr scenario_result) ! 0) - 0.8995\<bar> < 0.0001
      \<and> calculate_confidence_v2 default_settings
            (final_score (matches (projr scenario_result) ! 0)) = EXACT
      \<and> \<bar>final_score (matches (projr scenario_result) ! 1) - 0.6375\<bar> < 0.0001)"
  by (simp add: scenario_defs stage_defs calculate_confidence_v2_def default_settings_def)

subsection \<open>C2: what the merge keeps\<close>

text \<open>
  Claim C2, as the code runs it. For every pair of stage output lists, the merged list
  holds each \<open>incident_id\<close> of either list exactly once; it is a subsequence of the
  keyword list followed by the semantic list, so each list keeps its own order and a
  duplicate keeps its first-seen position; and every merged candidate is the first
  candidate with its id in that concatenation, with all its fields as they were: a later
  occurrence contributes nothing, its scores included. The merged list is the
  deduplicated keyword list followed by the deduplicated semantic candidates whose id the
  keyword list does not have.
\<close>

theorem merge_first_seen:
  "distinct (map incident_id (merge_candidates a b))
   \<and> incident_id ` set (merge_candidates a b) = incident_id ` set a \<union> incident_id ` set b
   \<and> subseq (merge_candidates a b) (a @ b)
   \<and> (\<forall>c \<in> set (merge_candidates a b).
         find (\<lambda>x. incident_id x = incident_id c) (a @ b) = Some c)
   \<and> merge_candidates a b =
       merge_candidates a [] @
       filter (\<lambda>c. incident_id c \<notin> incident_id ` set a) (merge_candidates [] b)"
proof -
  have ids: "incident_id ` set (merge_candidates a b) = incident_id ` set a \<union> incident_id ` set b"
    using ids_merge_loop [of "{}" "a @ b"] by (simp add: merge_candidates_def image_Un)
  have first: "\<forall>c \<in> set (merge_candidates a b).
         find (\<lambda>x. incident_id x = incident_id c) (a @ b) = Some c"
    using merge_loop_first [of _ "{}" "a @ b"] by (simp add: merge_candidates_def)
  have dist: "distinct (map incident_id (merge_candidates a b))"
    by (simp add: merge_candidates_def distinct_merge_loop)
  have sub: "subseq (merge_candidates a b) (a @ b)"
    by (simp add: merge_candidates_def subseq_merge_loop)
  show ?thesis
    by (intro conjI) (rule dist, rule ids, rule sub, rule first, rule merge_candidates_split)
qed

text \<open>C2 at the scenario's stage outputs: INC-1 is kept once, as the keyword stage built it.\<close>

theorem merge_first_seen_witness:
  "merge_candidates [kw1] [sem1, sem2] = [kw1, sem2]
   \<and> kw1 \<in> set (merge_candidates [kw1] [sem1, sem2])
   \<and> find (\<lambda>x. incident_id x = incident_id kw1) ([kw1] @ [sem1, sem2]) = Some kw1
   \<and> distinct (map incident_id (merge_candidates [kw1] [sem1, sem2]))"
  using merge_first_seen [of "[kw1]" "[sem1, sem2]"]
  by (simp add: merge_candidates_def kw1_def sem1_def sem2_def new_candidate_def)

text \<open>
  C2 as stated fails: INC-1 is in both lists, with keyword score 0.6 and semantic score
  0.95, and no merged candidate carries both.
\<close>

theorem merge_counterexample:
  "incident_id kw1 = incident_id sem1 \<and> bm25_score kw1 = 0.6 \<and> bi_encoder_score sem1 = 0.95
   \<and> \<not> (\<exists>c \<in> set (merge_candidates [kw1] [sem1, sem2]).
           incident_id c = ''INC-1'' \<and> bm25_score c = 0.6 \<and> bi_encoder_score c = 0.95)"
  by (simp add: merge_candidates_def kw1_def sem1_def sem2_def new_candidate_def)

subsection \<open>C3: the disabled re-ranking stage\<close>

text \<open>
  Claim C3, as the code runs it. For every query and every input candidate list, when
  the re-ranking stage is disabled or has no model, its output is a prefix of the input:
  for a limit that is not negative exactly the first \<open>limit\<close> candidates, each one
  unchanged and at its input position. In particular each returned candidate keeps the
  re-rank score it came in with; the stage does not set it. The metrics record counts the
  input and the output.
\<close>

theorem rerank_disabled_passthrough:
  assumes "\<not> ce_enabled S \<or> \<not> ce_model S"
  shows "(0 \<le> limit \<longrightarrow> fst (rerank S q cs limit) = take (nat limit) cs)
       \<and> prefix (fst (rerank S q cs limit)) cs
       \<and> (\<forall>i < length (fst (rerank S q cs limit)).
             fst (rerank S q cs limit) ! i = cs ! i
           \<and> cross_encoder_score (fst (rerank S q cs limit) ! i) = cross_encoder_score (cs ! i))
       \<and> snd (rerank S q cs limit) =
           \<lparr>stage = CROSS_ENCODER, candidates_in = length cs,
            candidates_out = length (fst (rerank S q cs limit))\<rparr>"
proof -
  have eq: "fst (rerank S q cs limit) = py_prefix cs limit"
    using assms by (rule rerank_disabled_fst)
  have a: "0 \<le> limit \<longrightarrow> fst (rerank S q cs limit) = take (nat limit) cs"
    by (simp add: eq py_prefix_def)
  have b: "prefix (fst (rerank S q cs limit)) cs"
    by (simp add: eq prefix_py_prefix)
  have c: "\<forall>i < length (fst (rerank S q cs limit)).
             fst (rerank S q cs limit) ! i = cs ! i
           \<and> cross_encoder_score (fst (rerank S q cs limit) ! i) = cross_encoder_score (cs ! i)"
    by (simp add: eq py_prefix_def)
  have d: "snd (rerank S q cs limit) =
           \<lparr>stage = CROSS_ENCODER, candidates_in = length cs,
            candidates_out = length (fst (rerank S q cs limit))\<rparr>"
    using assms by (auto simp: rerank_def Let_def)
  show ?thesis using a b c d by blast
qed

text \<open>C3 on two scored candidates and limit 1: the first comes back, re-rank score 0.\<close>

theorem rerank_disabled_passthrough_witness:
  "\<not> ce_enabled disabled_stage
   \<and> fst (rerank disabled_stage ''database connection timeout'' [scored1, scored2] 1) = [scored1]
   \<and> cross_encoder_score
        (fst (rerank disabled_stage ''database connection timeout'' [scored1, scored2] 1) ! 0) = 0"
proof -
  have h: "\<not> ce_enabled disabled_stage \<or> \<not> ce_model disabled_stage"
    by (simp add: disabled_stage_def)
  have n: "\<not> ce_enabled disabled_stage"
    by (simp add: disabled_stage_def)
  have s: "cross_encoder_score scored1 = 0"
    by (simp add: scored1_def kw1_def new_candidate_def)
  show ?thesis
    using n s rerank_disabled_passthrough
                [OF h, of 1 "''database connection timeout''" "[scored1, scored2]"]
    by simp
qed

text \<open>
  C3 as stated fails: with the stage disabled, the returned candidates' re-rank scores
  are not their late-interaction scores (0.93 and 0.75); they are still 0.
\<close>

theorem rerank_counterexample:
  "map colbert_score (fst (rerank disabled_stage ''database connection timeout'' [scored1, scored2] 5))
     = [0.93, 0.75]
   \<and> map cross_encoder_score
        (fst (rerank disabled_stage ''database connection timeout'' [scored1, scored2] 5))
     = [0, 0]
   \<and> \<not> (\<forall>c \<in> set (fst (rerank disabled_stage ''database connection timeout''
                            [scored1, scored2] 5)).
           cross_encoder_score c = colbert_score c)"
  by (simp add: rerank_def disabled_stage_def py_prefix_def scored1_def scored2_def
        kw1_def sem2_def new_candidate_def)

subsection \<open>C4: the order of the returned matches\<close>

text \<open>
  Claim C4, as the code runs it. For every completed pipeline run, the returned matches
  are the output of the re-ranking stage, in that stage's order and with the same
  incidents at the same positions; when that stage is disabled or has no model and the
  limit is not negative, they are the first \<open>limit\<close> candidates of the late-interaction
  stage's output, in that output's order. For a limit that is not negative there are at
  most \<open>limit\<close> matches. Each match has its \<open>final_score\<close> set to the weighted sum
  \<open>0.10 * keyword + 0.25 * semantic + 0.40 * late-interaction + 0.25 * re-rank\<close> of its
  own stage scores. The orchestrator's final step computes the scores only: it neither
  truncates nor sorts, so the matches are not ordered by \<open>final_score\<close>.
\<close>

theorem search_matches_order:
  assumes "search P q f limit = Inr r"
  shows "(\<exists>col m. colbert_score_stage (colbert_enabled P) (clients P) q
                    (merge_candidates
                       (fst (projr (bm25_search (clients P) q f 100)))
                       (fst (projr (bi_encoder_search (clients P) q f 50)))) 20 = Inr (col, m)
                \<and> matches r = map (finalize q) (fst (rerank (cross_encoder P) q col limit))
                \<and> map incident_id (matches r)
                     = map incident_id (fst (rerank (cross_encoder P) q col limit))
                \<and> ((\<not> ce_enabled (cross_encoder P) \<or> \<not> ce_model (cross_encoder P)) \<and> 0 \<le> limit
                     \<longrightarrow> matches r = map (finalize q) (take (nat limit) col)))
       \<and> (\<forall>c \<in> set (matches r).
             final_score c = calculate_final_score c
           \<and> final_score c =
               0.10 * bm25_score c + 0.25 * bi_encoder_score c + 0.40 * colbert_score c
                 + 0.25 * cross_encoder_score c)
       \<and> (0 \<le> limit \<longrightarrow> length (matches r) \<le> nat limit)"
proof -
  from assms obtain b m1 s m2 col m3 where
    bm: "bm25_search (clients P) q f 100 = Inr (b, m1)" and
    bi: "bi_encoder_search (clients P) q f 50 = Inr (s, m2)" and
    co: "colbert_score_stage (colbert_enabled P) (clients P) q (merge_candidates b s) 20 = Inr (col, m3)" and
    ma: "matches r = map (finalize q) (fst (rerank (cross_encoder P) q col limit))"
    by (rule search_Inr_cases)
  have st: "colbert_score_stage (colbert_enabled P) (clients P) q
                    (merge_candidates
                       (fst (projr (bm25_search (clients P) q f 100)))
                       (fst (projr (bi_encoder_search (clients P) q f 50)))) 20 = Inr (col, m3)"
    using bm bi co by simp
  have ids: "map incident_id (matches r)
               = map incident_id (fst (rerank (cross_encoder P) q col limit))"
    by (simp add: ma finalize_scores)
  have dis: "matches r = map (finalize q) (take (nat limit) col)"
    if d: "\<not> ce_enabled (cross_encoder P) \<or> \<not> ce_model (cross_encoder P)" and l: "0 \<le> limit"
    using l by (simp add: ma rerank_disabled_fst [OF d] py_prefix_def)
  have a: "\<exists>col m. colbert_score_stage (colbert_enabled P) (clients P) q
                    (merge_candidates
                       (fst (projr (bm25_search (clients P) q f 100)))
                       (fst (projr (bi_encoder_search (clients P) q f 50)))) 20 = Inr (col, m)
                \<and> matches r = map (finalize q) (fst (rerank (cross_encoder P) q col limit))
                \<and> map incident_id (matches r)
                     = map incident_id (fst (rerank (cross_encoder P) q col limit))
                \<and> ((\<not> ce_enabled (cross_encoder P) \<or> \<not> ce_model (cross_encoder P)) \<and> 0 \<le> limit
                     \<longrightarrow> matches r = map (finalize q) (take (nat limit) col))"
    using st ma ids dis by blast
  have b: "\<forall>c \<in> set (matches r).
             final_score c = calculate_final_score c
           \<and> final_score c =
               0.10 * bm25_score c + 0.25 * bi_encoder_score c + 0.40 * colbert_score c
                 + 0.25 * cross_encoder_score c"
    by (auto simp: ma finalize_scores calculate_final_score_finalize calculate_final_score_def)
  have c: "0 \<le> limit \<longrightarrow> length (matches r) \<le> nat limit"
    by (simp add: ma length_rerank)
  show ?thesis using a b c by blast
qed

text \<open>
  C4 on the run with incidents A and B: the run completes with two matches, A before B
  as the late-interaction stage left them, each scored by the weighted sum.
\<close>

theorem search_matches_order_witness:
  "search ab_pipeline ''disk full'' None 5 = Inr (projr ab_result)
   \<and> length (matches (projr ab_result)) \<le> 5
   \<and> map incident_id (matches (projr ab_result)) = [''A'', ''B'']
   \<and> map final_score (matches (projr ab_result))
       = map calculate_final_score (matches (projr ab_result))"
proof -
  have h: "search ab_pipeline ''disk full'' None 5 = Inr (projr ab_result)"
    by (simp add: ab_defs stage_defs)
  have v: "map incident_id (matches (projr ab_result)) = [''A'', ''B'']"
    by (simp add: ab_defs stage_defs)
  have w: "map final_score (matches (projr ab_result))
       = map calculate_final_score (matches (projr ab_result))"
    using search_matches_order [OF h] by simp
  have n: "length (matches (projr ab_result)) \<le> 5"
    using search_matches_order [OF h] by simp
  show ?thesis using h v w n by blast
qed

text \<open>
  C4 as stated fails on that run: the matches come back as [A, B] with final scores
  0.385 and 0.545, which is not descending.
\<close>

theorem search_order_counterexample:
  "\<not> isl ab_result
   \<and> map incident_id (matches (projr ab_result)) = [''A'', ''B'']
   \<and> map final_score (matches (projr ab_result)) = [0.385, 0.545]
   \<and> \<not> sorted_wrt (\<lambda>a b. final_score a \<ge> final_score b) (matches (projr ab_result))"
  by (simp add: ab_defs stage_defs)

subsection \<open>C5: the confidence classifier\<close>

text \<open>
  Claim C5. For every final score in [0,1] and thresholds with
  \<open>partial_threshold \<le> exact_threshold\<close>, the classifier of either engine returns EXACT
  exactly for scores at or above the exact threshold, PARTIAL exactly for scores from the
  partial threshold up to but below the exact threshold, and NONE exactly for all other
  scores, which are those below the partial threshold: each score falls in one range and
  gets that range's tier.
\<close>

theorem classify_partition:
  assumes "partial_match_threshold st \<le> exact_match_threshold st" and "0 \<le> s" and "s \<le> 1"
  shows "(calculate_confidence st s = EXACT \<longleftrightarrow> s \<ge> exact_match_threshold st)
       \<and> (calculate_confidence st s = PARTIAL \<longleftrightarrow>
             partial_match_threshold st \<le> s \<and> s < exact_match_threshold st)
       \<and> (calculate_confidence st s = NONE \<longleftrightarrow>
             \<not> s \<ge> exact_match_threshold st
             \<and> \<not> (partial_match_threshold st \<le> s \<and> s < exact_match_threshold st))
       \<and> (calculate_confidence st s = NONE \<longleftrightarrow> s < partial_match_threshold st)
       \<and> calculate_confidence_v2 st s = calculate_confidence st s"
  using assms by (auto simp: calculate_confidence_def calculate_confidence_v2_def)

text \<open>C5 at the default thresholds and the score 0.8, which is PARTIAL.\<close>

theorem classify_partition_witness:
  "partial_match_threshold default_settings \<le> exact_match_threshold default_settings
   \<and> (0::real) \<le> 0.8 \<and> (0.8::real) \<le> 1
   \<and> calculate_confidence default_settings 0.8 = PARTIAL
   \<and> calculate_confidence_v2 default_settings 0.8 = PARTIAL"
proof -
  have h: "partial_match_threshold default_settings \<le> exact_match_threshold default_settings"
    by (simp add: default_settings_def)
  show ?thesis
    using h classify_partition [OF h, of "0.8"] by (simp add: default_settings_def)
qed

subsection \<open>C6: validation of the thresholds\<close>

text \<open>
  Claim C6, as the code runs it. Constructing the settings fails with a validation error
  exactly when one of the three thresholds (exact, partial, minimum) lies outside [0,1].
  Every configuration with all three inside [0,1] is accepted as given, whatever the
  order of the partial and the exact threshold; the thresholds of accepted settings lie
  in [0,1].
\<close>

theorem settings_validation:
  "(new_PatternMatchingSettings e p m = Inl ValidationError \<longleftrightarrow>
      \<not> (0 \<le> e \<and> e \<le> 1 \<and> 0 \<le> p \<and> p \<le> 1 \<and> 0 \<le> m \<and> m \<le> 1))
   \<and> (0 \<le> e \<and> e \<le> 1 \<and> 0 \<le> p \<and> p \<le> 1 \<and> 0 \<le> m \<and> m \<le> 1 \<longrightarrow>
        new_PatternMatchingSettings e p m =
          Inr \<lparr>exact_match_threshold = e, partial_match_threshold = p,
               min_match_threshold = m\<rparr>)
   \<and> (\<forall>st. new_PatternMatchingSettings e p m = Inr st \<longrightarrow>
        0 \<le> exact_match_threshold st \<and> exact_match_threshold st \<le> 1
        \<and> 0 \<le> partial_match_threshold st \<and> partial_match_threshold st \<le> 1)"
  by (auto simp: new_PatternMatchingSettings_def validate_thresholds_def split: if_splits)

text \<open>C6 on a partial threshold of 1.5, refused, and on the defaults, accepted.\<close>

theorem settings_validation_witness:
  "new_PatternMatchingSettings 0.92 1.5 0.5 = Inl ValidationError
   \<and> new_PatternMatchingSettings 0.92 0.70 0.50 = Inr default_settings"
  using settings_validation [of "0.92" "1.5" "0.5"] settings_validation [of "0.92" "0.70" "0.50"]
  by (simp add: default_settings_def)

text \<open>
  C6 as stated fails: a partial threshold of 0.8 above an exact threshold of 0.5 is
  accepted.
\<close>

theorem settings_counterexample:
  "(0.8::real) > 0.5
   \<and> new_PatternMatchingSettings 0.5 0.8 0.5 =
       Inr \<lparr>exact_match_threshold = 0.5, partial_match_threshold = 0.8,
            min_match_threshold = 0.5\<rparr>
   \<and> \<not> isl (new_PatternMatchingSettings 0.5 0.8 0.5)"
  by (simp add: new_PatternMatchingSettings_def validate_thresholds_def)

subsection \<open>C7: a keyword index that cannot be reached\<close>

text \<open>
  Claim C7, as the code runs it. For every query without filters, if the keyword
  stage's index call fails, the keyword stage fails with that error, returning neither
  candidates nor metrics, and the pipeline run ends with the same error instead of going
  on to the remaining stages. The stage returns an empty candidate list with
  \<open>candidates_out = 0\<close> when the index answers with no hits, and only then: whenever
  the stage returns, the index has answered, and the stage's list has one candidate per
  hit and its metrics record counts the hits.
\<close>

theorem keyword_failure_propagates:
  assumes "\<not> truthy_filters f"
  shows "(sparse_search K ''incidents_bm25'' q n = Inl e \<longrightarrow> bm25_search K q f n = Inl e)
       \<and> (sparse_search (clients P) ''incidents_bm25'' q 100 = Inl e \<longrightarrow>
            search P q f limit = Inl e)
       \<and> (sparse_search K ''incidents_bm25'' q n = Inr [] \<longrightarrow>
            bm25_search K q f n =
              Inr ([], \<lparr>stage = BM25_FILTER, candidates_in = 0, candidates_out = 0\<rparr>))
       \<and> (\<forall>cs m. bm25_search K q f n = Inr (cs, m) \<longrightarrow>
            (\<exists>results. sparse_search K ''incidents_bm25'' q n = Inr results
               \<and> cs = map bm25_candidate results
               \<and> length cs = length results
               \<and> m = \<lparr>stage = BM25_FILTER, candidates_in = length results,
                       candidates_out = length results\<rparr>))
       \<and> (\<forall>m. bm25_search K q f n = Inr ([], m) \<longrightarrow>
            sparse_search K ''incidents_bm25'' q n = Inr [])
       \<and> (\<forall>cs m. bm25_search K q f n = Inr (cs, m) \<and> candidates_out m = 0 \<longrightarrow>
            sparse_search K ''incidents_bm25'' q n = Inr [] \<and> cs = [])"
proof -
  have a: "sparse_search K ''incidents_bm25'' q n = Inl e \<longrightarrow> bm25_search K q f n = Inl e"
    using assms by (simp add: bm25_search_def)
  have b: "sparse_search (clients P) ''incidents_bm25'' q 100 = Inl e \<longrightarrow>
            search P q f limit = Inl e"
    using assms by (simp add: bm25_search_def search_def)
  have c: "sparse_search K ''incidents_bm25'' q n = Inr [] \<longrightarrow>
            bm25_search K q f n =
              Inr ([], \<lparr>stage = BM25_FILTER, candidates_in = 0, candidates_out = 0\<rparr>)"
    using assms by (simp add: bm25_search_def)
  have d: "\<exists>results. sparse_search K ''incidents_bm25'' q n = Inr results
               \<and> cs = map bm25_candidate results
               \<and> length cs = length results
               \<and> m = \<lparr>stage = BM25_FILTER, candidates_in = length results,
                       candidates_out = length results\<rparr>"
    if "bm25_search K q f n = Inr (cs, m)" for cs m
    using that assms by (auto simp: bm25_search_def Let_def split: sum.splits)
  have e: "sparse_search K ''incidents_bm25'' q n = Inr []"
    if "bm25_search K q f n = Inr ([], m)" for m
    using d [OF that] by auto
  have g: "sparse_search K ''incidents_bm25'' q n = Inr [] \<and> cs = []"
    if "bm25_search K q f n = Inr (cs, m)" and "candidates_out m = 0" for cs m
    using d [OF that(1)] that(2) by auto
  show ?thesis using a b c d e g by blast
qed

text \<open>
  C7 on an index that refuses the connection, on one that has no hits, and on one that
  has a hit, for which the stage's result is not empty.
\<close>

theorem keyword_failure_propagates_witness:
  "\<not> truthy_filters None
   \<and> sparse_search unreachable_clients ''incidents_bm25'' ''database connection timeout'' 100
       = Inl (CollaboratorError ''connection refused'')
   \<and> bm25_search unreachable_clients ''database connection timeout'' None 100
       = Inl (CollaboratorError ''connection refused'')
   \<and> sparse_search ab_clients ''incidents_bm25'' ''disk full'' 100 = Inr []
   \<and> bm25_search ab_clients ''disk full'' None 100
       = Inr ([], \<lparr>stage = BM25_FILTER, candidates_in = 0, candidates_out = 0\<rparr>)
   \<and> length (fst (projr (bm25_search scenario_clients ''database connection timeout'' None 100)))
       = 1"
proof -
  have h: "\<not> truthy_filters None" by (simp add: truthy_filters_def)
  have u: "sparse_search unreachable_clients ''incidents_bm25'' ''database connection timeout'' 100
       = Inl (CollaboratorError ''connection refused'')"
    by (simp add: unreachable_clients_def)
  have a: "sparse_search ab_clients ''incidents_bm25'' ''disk full'' 100 = Inr []"
    by (simp add: ab_clients_def)
  have s: "length (fst (projr (bm25_search scenario_clients ''database connection timeout''
                                  None 100))) = 1"
    by (simp add: bm25_search_def scenario_clients_def truthy_filters_def)
  have x: "bm25_search unreachable_clients ''database connection timeout'' None 100
       = Inl (CollaboratorError ''connection refused'')"
    using u keyword_failure_propagates [OF h, of unreachable_clients
         "''database connection timeout''" 100
         "CollaboratorError ''connection refused''" unreachable_pipeline]
    by blast
  have y: "bm25_search ab_clients ''disk full'' None 100
       = Inr ([], \<lparr>stage = BM25_FILTER, candidates_in = 0, candidates_out = 0\<rparr>)"
    using a keyword_failure_propagates [OF h, of ab_clients "''disk full''" 100
         "CollaboratorError ''connection refused''" ab_pipeline]
    by blast
  show ?thesis using h u a s x y by blast
qed

text \<open>
  C7 as stated fails: with the keyword index unreachable, the keyword stage does not
  return the empty result with \<open>candidates_out = 0\<close>, and the pipeline run ends in the
  index's error although the semantic index is reachable.
\<close>

theorem unreachable_counterexample:
  "bm25_search unreachable_clients ''database connection timeout'' None 100
     \<noteq> Inr ([], \<lparr>stage = BM25_FILTER, candidates_in = 0, candidates_out = 0\<rparr>)
   \<and> bm25_search unreachable_clients ''database connection timeout'' None 100
     = Inl (CollaboratorError ''connection refused'')
   \<and> \<not> isl (bi_encoder_search unreachable_clients ''database connection timeout'' None 50)
   \<and> search unreachable_pipeline ''database connection timeout'' None 5
     = Inl (CollaboratorError ''connection refused'')"
  by (simp add: unreachable_pipeline_def unreachable_clients_def scenario_pipeline_def
        scenario_clients_def search_def bm25_search_def bi_encoder_search_def
        truthy_filters_def)

subsection \<open>C8: the weighted final score\<close>

text \<open>
  Claim C8. The final score is the weighted sum
  \<open>0.10 * keyword + 0.25 * semantic + 0.40 * late-interaction + 0.25 * re-rank\<close>, whose
  weights sum to 1 (a candidate with all four scores 1 scores 1), and it is monotone:
  raising any single one of the four stage scores of a candidate, the other three held
  fixed, never lowers the final score.
\<close>

theorem final_score_monotone:
  "calculate_final_score c =
      0.10 * bm25_score c + 0.25 * bi_encoder_score c + 0.40 * colbert_score c
        + 0.25 * cross_encoder_score c
   \<and> calculate_final_score
        (c\<lparr>bm25_score := 1, bi_encoder_score := 1, colbert_score := 1,
           cross_encoder_score := 1\<rparr>) = 1
   \<and> (x \<le> y \<longrightarrow>
        calculate_final_score (c\<lparr>bm25_score := x\<rparr>) \<le> calculate_final_score (c\<lparr>bm25_score := y\<rparr>)
      \<and> calculate_final_score (c\<lparr>bi_encoder_score := x\<rparr>)
          \<le> calculate_final_score (c\<lparr>bi_encoder_score := y\<rparr>)
      \<and> calculate_final_score (c\<lparr>colbert_score := x\<rparr>)
          \<le> calculate_final_score (c\<lparr>colbert_score := y\<rparr>)
      \<and> calculate_final_score (c\<lparr>cross_encoder_score := x\<rparr>)
          \<le> calculate_final_score (c\<lparr>cross_encoder_score := y\<rparr>))"
  by (simp add: calculate_final_score_def)

text \<open>C8 on INC-1 of the scenario, its keyword score raised from 0.6 to 0.7.\<close>

theorem final_score_monotone_witness:
  "(0.6::real) \<le> 0.7
   \<and> calculate_final_score (scored1\<lparr>bm25_score := 0.6\<rparr>) = 0.432
   \<and> calculate_final_score (scored1\<lparr>bm25_score := 0.7\<rparr>) = 0.442
   \<and> calculate_final_score (scored1\<lparr>bm25_score := 0.6\<rparr>)
       \<le> calculate_final_score (scored1\<lparr>bm25_score := 0.7\<rparr>)"
  using final_score_monotone [of scored1 "0.6" "0.7"]
  by (simp add: scored1_def kw1_def new_candidate_def calculate_final_score_def)

subsection \<open>C9: merging is idempotent\<close>

text \<open>
  Claim C9. For every pair of candidate lists the merged list contains each
  \<open>incident_id\<close> at most once, and merging is idempotent: merging a list A with itself
  gives the same list as merging A once, and merging A into a merge result that already
  holds A (A once, A with A, or A with any B) gives that result back.
\<close>

theorem merge_idempotent:
  "distinct (map incident_id (merge_candidates a b))
   \<and> merge_candidates a a = merge_candidates a []
   \<and> merge_candidates (merge_candidates a []) a = merge_candidates a []
   \<and> merge_candidates (merge_candidates a a) a = merge_candidates a a
   \<and> merge_candidates (merge_candidates a b) a = merge_candidates a b
   \<and> merge_candidates (merge_candidates a b) b = merge_candidates a b"
proof -
  have "merge_candidates a a = merge_candidates a []"
    using merge_loop_append [of "{}" a a] merge_loop_seen_all [of a "incident_id ` set a"]
    by (simp add: merge_candidates_def)
  moreover have "merge_candidates (merge_candidates a []) a = merge_candidates a []"
    by (rule merge_candidates_absorb) simp
  moreover have "merge_candidates (merge_candidates a a) a = merge_candidates a a"
    by (rule merge_candidates_absorb) simp
  moreover have "merge_candidates (merge_candidates a b) a = merge_candidates a b"
    by (rule merge_candidates_absorb) auto
  moreover have "merge_candidates (merge_candidates a b) b = merge_candidates a b"
    by (rule merge_candidates_absorb) auto
  ultimately show ?thesis
    by (simp add: merge_candidates_def distinct_merge_loop)
qed

text \<open>C9 on a list that already holds INC-1 twice.\<close>

theorem merge_idempotent_witness:
  "merge_candidates [kw1, sem1, sem2] [kw1, sem1, sem2] = [kw1, sem2]
   \<and> merge_candidates [kw1, sem1, sem2] [] = [kw1, sem2]
   \<and> merge_candidates (merge_candidates [kw1, sem1, sem2] [kw1, sem1, sem2]) [kw1, sem1, sem2]
       = [kw1, sem2]
   \<and> distinct (map incident_id (merge_candidates [kw1, sem1, sem2] [kw1, sem1, sem2]))"
proof -
  have e: "merge_candidates [kw1, sem1, sem2] [] = [kw1, sem2]"
    by (simp add: merge_candidates_def kw1_def sem1_def sem2_def new_candidate_def)
  show ?thesis
    using e merge_idempotent [of "[kw1, sem1, sem2]" "[kw1, sem1, sem2]"]
    by (simp add: kw1_def sem2_def new_candidate_def)
qed

subsection \<open>C10: the two views of a result\<close>

text \<open>
  Claim C10. For every pipeline result, \<open>exact_matches\<close> and \<open>partial_matches\<close> are
  disjoint and are computed against the constants 0.92 and 0.70 of the result type, with
  no access to the configured thresholds: a match is in \<open>exact_matches\<close> iff its final
  score is at least 0.92, and in \<open>partial_matches\<close> iff its final score is at least 0.70
  and below 0.92. Whenever the configured exact or partial threshold differs from these
  defaults, there is a result with a match on which a view disagrees with the confidence
  tier; its final score lies in [0,1] when the thresholds do.
\<close>

theorem views_hard_coded:
  "set (exact_matches r) \<inter> set (partial_matches r) = {}
   \<and> (m \<in> set (exact_matches r) \<longleftrightarrow> m \<in> set (matches r) \<and> final_score m \<ge> 0.92)
   \<and> (m \<in> set (partial_matches r) \<longleftrightarrow>
         m \<in> set (matches r) \<and> 0.70 \<le> final_score m \<and> final_score m < 0.92)
   \<and> ((exact_match_threshold st, partial_match_threshold st) \<noteq> (0.92, 0.70) \<longrightarrow>
        (\<exists>r' m'. m' \<in> set (matches r')
           \<and> ((m' \<in> set (exact_matches r'))
                  \<noteq> (calculate_confidence_v2 st (final_score m') = EXACT)
              \<or> (m' \<in> set (partial_matches r'))
                  \<noteq> (calculate_confidence_v2 st (final_score m') = PARTIAL))
           \<and> (0 \<le> exact_match_threshold st \<and> exact_match_threshold st \<le> 1
               \<and> 0 \<le> partial_match_threshold st \<and> partial_match_threshold st \<le> 1
               \<longrightarrow> 0 \<le> final_score m' \<and> final_score m' \<le> 1)))"
proof -
  have disj: "set (exact_matches r) \<inter> set (partial_matches r) = {}"
    by (auto simp: exact_matches_def partial_matches_def)
  have ex: "m \<in> set (exact_matches r) \<longleftrightarrow> m \<in> set (matches r) \<and> final_score m \<ge> 0.92"
    by (auto simp: exact_matches_def)
  have pa: "m \<in> set (partial_matches r) \<longleftrightarrow>
         m \<in> set (matches r) \<and> 0.70 \<le> final_score m \<and> final_score m < 0.92"
    by (auto simp: partial_matches_def)
  let ?e = "exact_match_threshold st" and ?p = "partial_match_threshold st"
  let ?valid = "0 \<le> ?e \<and> ?e \<le> 1 \<and> 0 \<le> ?p \<and> ?p \<le> 1"
  have dis: "\<exists>r' m'. m' \<in> set (matches r')
           \<and> ((m' \<in> set (exact_matches r'))
                  \<noteq> (calculate_confidence_v2 st (final_score m') = EXACT)
              \<or> (m' \<in> set (partial_matches r'))
                  \<noteq> (calculate_confidence_v2 st (final_score m') = PARTIAL))
           \<and> (?valid \<longrightarrow> 0 \<le> final_score m' \<and> final_score m' \<le> 1)"
    if ne: "(?e, ?p) \<noteq> (0.92, 0.70)"
  proof -
    have score: "\<exists>s. ((s \<ge> 0.92) \<noteq> (calculate_confidence_v2 st s = EXACT)
                     \<or> (0.70 \<le> s \<and> s < 0.92) \<noteq> (calculate_confidence_v2 st s = PARTIAL))
                   \<and> (?valid \<longrightarrow> 0 \<le> s \<and> s \<le> 1)"
    proof -
      consider "?e < 0.92" | "?e > 0.92" | "?e = 0.92" "?p < 0.70" | "?e = 0.92" "?p > 0.70"
        using ne by fastforce
      then show ?thesis
      proof cases
        case 1
        then have "((?e \<ge> 0.92) \<noteq> (calculate_confidence_v2 st ?e = EXACT))
                   \<and> (?valid \<longrightarrow> 0 \<le> ?e \<and> ?e \<le> 1)"
          by (simp add: calculate_confidence_v2_def)
        then show ?thesis by blast
      next
        case 2
        then have "(((0.92::real) \<ge> 0.92) \<noteq> (calculate_confidence_v2 st 0.92 = EXACT))
                   \<and> (?valid \<longrightarrow> (0::real) \<le> 0.92 \<and> (0.92::real) \<le> 1)"
          by (simp add: calculate_confidence_v2_def)
        then show ?thesis by blast
      next
        case 3
        then have "((0.70 \<le> ?p \<and> ?p < 0.92) \<noteq> (calculate_confidence_v2 st ?p = PARTIAL))
                   \<and> (?valid \<longrightarrow> 0 \<le> ?p \<and> ?p \<le> 1)"
          by (simp add: calculate_confidence_v2_def)
        then show ?thesis by blast
      next
        case 4
        then have "(((0.70::real) \<le> 0.70 \<and> (0.70::real) < 0.92)
                      \<noteq> (calculate_confidence_v2 st 0.70 = PARTIAL))
                   \<and> (?valid \<longrightarrow> (0::real) \<le> 0.70 \<and> (0.70::real) \<le> 1)"
          by (simp add: calculate_confidence_v2_def)
        then show ?thesis by blast
      qed
    qed
    then obtain s where
      s: "(s \<ge> 0.92) \<noteq> (calculate_confidence_v2 st s = EXACT)
          \<or> (0.70 \<le> s \<and> s < 0.92) \<noteq> (calculate_confidence_v2 st s = PARTIAL)"
      and v: "?valid \<longrightarrow> 0 \<le> s \<and> s \<le> 1"
      by blast
    let ?m = "(new_candidate [] [] [])\<lparr>final_score := s\<rparr>"
    let ?r = "\<lparr>matches = [?m], metrics = []\<rparr>"
    have fs: "final_score ?m = s" by simp
    have mem: "?m \<in> set (matches ?r)" by simp
    have ex': "(?m \<in> set (exact_matches ?r)) = (s \<ge> 0.92)"
      by (simp add: exact_matches_def)
    have pa': "(?m \<in> set (partial_matches ?r)) = (0.70 \<le> s \<and> s < 0.92)"
      by (simp add: partial_matches_def)
    have "?m \<in> set (matches ?r)
           \<and> ((?m \<in> set (exact_matches ?r))
                  \<noteq> (calculate_confidence_v2 st (final_score ?m) = EXACT)
              \<or> (?m \<in> set (partial_matches ?r))
                  \<noteq> (calculate_confidence_v2 st (final_score ?m) = PARTIAL))
           \<and> (?valid \<longrightarrow> 0 \<le> final_score ?m \<and> final_score ?m \<le> 1)"
      unfolding ex' pa' fs using mem s v by blast
    then show ?thesis by blast
  qed
  show ?thesis using disj ex pa dis by blast
qed

text \<open>
  C10 with the exact threshold configured as 0.95: a match scoring 0.93 is in
  \<open>exact_matches\<close> and is classified PARTIAL.
\<close>

theorem views_hard_coded_witness:
  "(exact_match_threshold strict_settings, partial_match_threshold strict_settings) \<noteq> (0.92, 0.70)
   \<and> scored1\<lparr>final_score := 0.93\<rparr>
        \<in> set (exact_matches \<lparr>matches = [scored1\<lparr>final_score := 0.93\<rparr>], metrics = []\<rparr>)
   \<and> calculate_confidence_v2 strict_settings (final_score (scored1\<lparr>final_score := 0.93\<rparr>))
        = PARTIAL"
proof -
  have ne: "(exact_match_threshold strict_settings, partial_match_threshold strict_settings)
              \<noteq> (0.92, 0.70)"
    by (simp add: strict_settings_def)
  have a: "scored1\<lparr>final_score := 0.93\<rparr>
        \<in> set (exact_matches \<lparr>matches = [scored1\<lparr>final_score := 0.93\<rparr>], metrics = []\<rparr>)"
    using views_hard_coded [of "\<lparr>matches = [scored1\<lparr>final_score := 0.93\<rparr>], metrics = []\<rparr>"
                               "scored1\<lparr>final_score := 0.93\<rparr>" strict_settings]
    by simp
  have b: "calculate_confidence_v2 strict_settings (final_score (scored1\<lparr>final_score := 0.93\<rparr>))
        = PARTIAL"
    by (simp add: calculate_confidence_v2_def strict_settings_def)
  show ?thesis using ne a b by blast
qed

end
